theory Spec2Isabelle
  imports Main "HOL-Library.AList"
begin

section \<open>Entities (services/documentService.ts, services/conversationService.ts)\<close>

text \<open>
  The TypeScript interfaces \<open>Document\<close> and \<open>Conversation\<close>. Record fields are global
  constants in HOL, so the field names carry the prefix \<open>doc_\<close> or \<open>conv_\<close>; an optional
  field (\<open>f?: T\<close>) is an \<open>option\<close>. Numbers that hold counts, sizes and millisecond
  timestamps are integers.
\<close>

datatype document_type = Pdf | Note | Audio

datatype job_status = Pending | Processing | Completed | Failed

record doc_metadata =
  md_speaker :: "string option"
  md_date :: "string option"
  md_file_type :: "string option"
  md_language :: "string option"
  md_duration :: "int option"

record Document =
  doc_id :: string
  doc_org_id :: "string option"
  doc_user_id :: string
  doc_title :: string
  doc_document_type :: document_type
  doc_filename :: "string option"
  doc_file_path :: "string option"
  doc_file_size :: "int option"
  doc_content_type :: "string option"
  doc_content :: "string option"
  doc_ocr_text :: "string option"
  doc_description :: "string option"
  doc_source_url :: "string option"
  doc_metadata :: "doc_metadata option"
  doc_processing_status :: "job_status option"
  doc_ocr_status :: "job_status option"
  doc_transcription_status :: "job_status option"
  doc_embeddings_generated :: "bool option"
  doc_created_at :: string
  doc_updated_at :: string

record Conversation =
  conv_id :: string
  conv_user_id :: string
  conv_title :: string
  conv_created_at :: string
  conv_updated_at :: string
  conv_message_count :: int
  conv_last_message :: "string option"
  conv_last_message_at :: "string option"

section \<open>The data cache (contexts/DataContext.tsx)\<close>

record Stats =
  totalDocuments :: nat
  totalNotes :: nat
  totalAudio :: nat
  totalItems :: nat
  totalConversations :: nat

record DataState =
  documents :: "Document list"
  conversations :: "Conversation list"
  documentsLoading :: bool
  conversationsLoading :: bool
  documentsLastFetch :: "int option"
  conversationsLastFetch :: "int option"
  documentsError :: "string option"
  conversationsError :: "string option"
  stats :: Stats
  hasInitializedDocuments :: bool
  hasInitializedConversations :: bool

datatype DataAction =
    DOCUMENTS_LOADING_START
  | DOCUMENTS_LOADING_SUCCESS "Document list"
  | DOCUMENTS_LOADING_FAILURE string
  | CONVERSATIONS_LOADING_START
  | CONVERSATIONS_LOADING_SUCCESS "Conversation list"
  | CONVERSATIONS_LOADING_FAILURE string
  | ADD_DOCUMENT Document
  | UPDATE_DOCUMENT Document
  | DELETE_DOCUMENT string
  | ADD_CONVERSATION Conversation
  | UPDATE_CONVERSATION Conversation
  | DELETE_CONVERSATION string
  | FORCE_REFRESH_DOCUMENTS
  | FORCE_REFRESH_CONVERSATIONS

text \<open>Cache duration in milliseconds: \<open>3 * 60 * 1000\<close>.\<close>

definition CACHE_DURATION :: int where
  "CACHE_DURATION = 3 * 60 * 1000"

definition calculateStats :: "Document list \<Rightarrow> nat \<Rightarrow> Stats" where
  "calculateStats docs conversationCount =
     \<lparr> totalDocuments = length (filter (\<lambda>d. doc_document_type d = Pdf) docs),
       totalNotes = length (filter (\<lambda>d. doc_document_type d = Note) docs),
       totalAudio = length (filter (\<lambda>d. doc_document_type d = Audio) docs),
       totalItems = length docs,
       totalConversations = conversationCount \<rparr>"

text \<open>
  The reducer. It reads the clock (\<open>Date.now()\<close>) in the two success cases, so the
  clock's reading is the first argument. The cases are those of the \<open>switch\<close>, in its
  order; the \<open>default\<close> branch is unreachable for a value of the action type.
\<close>

fun dataReducer :: "int \<Rightarrow> DataState \<Rightarrow> DataAction \<Rightarrow> DataState" where
  "dataReducer now state DOCUMENTS_LOADING_START =
     state\<lparr> documentsLoading := True, documentsError := None \<rparr>"
| "dataReducer now state (DOCUMENTS_LOADING_SUCCESS payload) =
     state\<lparr> documents := payload,
            documentsLoading := False,
            documentsError := None,
            documentsLastFetch := Some now,
            hasInitializedDocuments := True,
            stats := calculateStats payload (totalConversations (stats state)) \<rparr>"
| "dataReducer now state (DOCUMENTS_LOADING_FAILURE payload) =
     state\<lparr> documentsLoading := False,
            documentsError := Some payload,
            hasInitializedDocuments := True \<rparr>"
| "dataReducer now state CONVERSATIONS_LOADING_START =
     state\<lparr> conversationsLoading := True, conversationsError := None \<rparr>"
| "dataReducer now state (CONVERSATIONS_LOADING_SUCCESS payload) =
     state\<lparr> conversations := payload,
            conversationsLoading := False,
            conversationsError := None,
            conversationsLastFetch := Some now,
            hasInitializedConversations := True,
            stats := calculateStats (documents state) (length payload) \<rparr>"
| "dataReducer now state (CONVERSATIONS_LOADING_FAILURE payload) =
     state\<lparr> conversationsLoading := False,
            conversationsError := Some payload,
            hasInitializedConversations := True \<rparr>"
| "dataReducer now state (ADD_DOCUMENT payload) =
     (let newDocuments = documents state @ [payload]
      in state\<lparr> documents := newDocuments,
                stats := calculateStats newDocuments (totalConversations (stats state)) \<rparr>)"
| "dataReducer now state (UPDATE_DOCUMENT payload) =
     (let updatedDocuments =
            map (\<lambda>doc. if doc_id doc = doc_id payload then payload else doc) (documents state)
      in state\<lparr> documents := updatedDocuments,
                stats := calculateStats updatedDocuments (totalConversations (stats state)) \<rparr>)"
| "dataReducer now state (DELETE_DOCUMENT payload) =
     (let filteredDocuments = filter (\<lambda>doc. doc_id doc \<noteq> payload) (documents state)
      in state\<lparr> documents := filteredDocuments,
                stats := calculateStats filteredDocuments (totalConversations (stats state)) \<rparr>)"
| "dataReducer now state (ADD_CONVERSATION payload) =
     (let newConversations = payload # conversations state
      in state\<lparr> conversations := newConversations,
                stats := calculateStats (documents state) (length newConversations) \<rparr>)"
| "dataReducer now state (UPDATE_CONVERSATION payload) =
     state\<lparr> conversations :=
              map (\<lambda>conv. if conv_id conv = conv_id payload then payload else conv)
                (conversations state) \<rparr>"
| "dataReducer now state (DELETE_CONVERSATION payload) =
     (let filteredConversations = filter (\<lambda>conv. conv_id conv \<noteq> payload) (conversations state)
      in state\<lparr> conversations := filteredConversations,
                stats := calculateStats (documents state) (length filteredConversations) \<rparr>)"
| "dataReducer now state FORCE_REFRESH_DOCUMENTS =
     state\<lparr> documentsLastFetch := None \<rparr>"
| "dataReducer now state FORCE_REFRESH_CONVERSATIONS =
     state\<lparr> conversationsLastFetch := None \<rparr>"

definition initialState :: DataState where
  "initialState =
     \<lparr> documents = [],
       conversations = [],
       documentsLoading = False,
       conversationsLoading = False,
       documentsLastFetch = None,
       conversationsLastFetch = None,
       documentsError = None,
       conversationsError = None,
       stats = \<lparr> totalDocuments = 0, totalNotes = 0, totalAudio = 0,
                 totalItems = 0, totalConversations = 0 \<rparr>,
       hasInitializedDocuments = False,
       hasInitializedConversations = False \<rparr>"

text \<open>
  A run of the reducer over a sequence of dispatched actions, each paired with the
  clock's reading at the moment it is reduced.
\<close>

definition dispatchAll :: "DataState \<Rightarrow> (int \<times> DataAction) list \<Rightarrow> DataState" where
  "dispatchAll state acts = foldl (\<lambda>s (now, a). dataReducer now s a) state acts"

subsection \<open>Staleness\<close>

datatype collection = Documents | Conversations

text \<open>
  \<open>isStale\<close> reads the clock, its second argument here. The test \<open>!lastFetch\<close> is
  JavaScript truthiness on a \<open>number | null\<close>: it holds for \<open>null\<close> and for the
  number \<open>0\<close>.
\<close>

definition isStale :: "collection \<Rightarrow> int \<Rightarrow> DataState \<Rightarrow> bool" where
  "isStale ty now state =
     (let lastFetch = (if ty = Documents then documentsLastFetch state
                       else conversationsLastFetch state)
      in case lastFetch of
           None \<Rightarrow> True
         | Some t \<Rightarrow> if t = 0 then True else now - t > CACHE_DURATION)"

subsection \<open>The fetchers' results\<close>

text \<open>
  \<open>ApiResponse<T>\<close> of the services, and how the awaited promise settles: it
  resolves with a response, or it rejects with an error whose \<open>message\<close> is given.
  \<open>ItemsByType\<close> is the payload of \<open>documentService.getAllItemsByType\<close>,
  \<open>ConversationListResponse\<close> that of \<open>conversationService.getConversations\<close>.
\<close>

record 'a ApiResponse =
  success :: bool
  data :: "'a option"
  error :: "string option"

datatype 'a settled = Resolved "'a ApiResponse" | Rejected string

record ItemsByType =
  items_documents :: "Document list"
  items_notes :: "Document list"
  items_audio :: "Document list"

record ConversationListResponse =
  list_conversations :: "Conversation list"
  list_total :: int

text \<open>\<open>result.error || fallback\<close>: the fallback replaces a missing or empty message.\<close>

definition errorOr :: "string option \<Rightarrow> string \<Rightarrow> string" where
  "errorOr e fallback = (case e of None \<Rightarrow> fallback | Some m \<Rightarrow> if m = [] then fallback else m)"

subsection \<open>loadDocuments and loadConversations\<close>

text \<open>
  \<open>DataProvider\<close> binds \<open>const [state, dispatch] = useReducer(dataReducer, initialState)\<close>
  on every render and defines \<open>isStale\<close>, \<open>loadDocuments\<close> and \<open>loadConversations\<close>
  inside that render, so the \<open>state\<close> their bodies read is the state of the render
  that created them: the \<open>snapshot\<close>. \<open>dispatch\<close> reduces the reducer's state as it
  is when the action arrives: the \<open>current\<close> state. The two are the same state only
  when the function called comes from the latest render and nothing was dispatched
  since.

  A load has two parts, separated by the \<open>await\<close>. The first part returns early
  (\<open>None\<close>: nothing is dispatched and the fetcher is not called) or dispatches the
  start action and calls the fetcher (\<open>Some\<close> of the reducer's state after the
  dispatch). The second part turns the settled promise into the action dispatched on
  completion.
\<close>

definition loadDocuments_start ::
    "bool \<Rightarrow> int \<Rightarrow> DataState \<Rightarrow> DataState \<Rightarrow> DataState option" where
  "loadDocuments_start force now snapshot current =
     (if documentsLoading snapshot then None
      else if \<not> force \<and> \<not> isStale Documents now snapshot \<and> length (documents snapshot) > 0
      then None
      else Some (dataReducer now current DOCUMENTS_LOADING_START))"

definition documentsSettled :: "ItemsByType settled \<Rightarrow> DataAction" where
  "documentsSettled r =
     (case r of
        Rejected message \<Rightarrow> DOCUMENTS_LOADING_FAILURE message
      | Resolved result \<Rightarrow>
          (case data result of
             Some d \<Rightarrow>
               if success result
               then DOCUMENTS_LOADING_SUCCESS (items_documents d @ items_notes d @ items_audio d)
               else DOCUMENTS_LOADING_FAILURE (errorOr (error result) ''Failed to load documents'')
           | None \<Rightarrow>
               DOCUMENTS_LOADING_FAILURE (errorOr (error result) ''Failed to load documents'')))"

definition loadConversations_start ::
    "bool \<Rightarrow> int \<Rightarrow> DataState \<Rightarrow> DataState \<Rightarrow> DataState option" where
  "loadConversations_start force now snapshot current =
     (if conversationsLoading snapshot then None
      else if \<not> force \<and> \<not> isStale Conversations now snapshot
                \<and> length (conversations snapshot) > 0
      then None
      else Some (dataReducer now current CONVERSATIONS_LOADING_START))"

definition conversationsSettled :: "ConversationListResponse settled \<Rightarrow> DataAction" where
  "conversationsSettled r =
     (case r of
        Rejected message \<Rightarrow> CONVERSATIONS_LOADING_FAILURE message
      | Resolved result \<Rightarrow>
          (case data result of
             Some d \<Rightarrow>
               if success result
               then CONVERSATIONS_LOADING_SUCCESS (list_conversations d)
               else CONVERSATIONS_LOADING_FAILURE
                      (errorOr (error result) ''Failed to load conversations'')
           | None \<Rightarrow>
               CONVERSATIONS_LOADING_FAILURE
                 (errorOr (error result) ''Failed to load conversations'')))"

text \<open>
  A whole load that nothing interrupts: the call at clock \<open>now\<close> through a function
  whose render saw \<open>snapshot\<close>, and, when the fetcher was called, its completion at
  clock \<open>settledAt\<close> with the settled promise \<open>fetched\<close>. The result is the number of
  fetcher calls made and the reducer's final state.
\<close>

definition loadDocuments ::
    "bool \<Rightarrow> int \<Rightarrow> DataState \<Rightarrow> ItemsByType settled \<Rightarrow> int \<Rightarrow> DataState
       \<Rightarrow> nat \<times> DataState" where
  "loadDocuments force now snapshot fetched settledAt current =
     (case loadDocuments_start force now snapshot current of
        None \<Rightarrow> (0, current)
      | Some started \<Rightarrow> (1, dataReducer settledAt started (documentsSettled fetched)))"

definition loadConversations ::
    "bool \<Rightarrow> int \<Rightarrow> DataState \<Rightarrow> ConversationListResponse settled \<Rightarrow> int \<Rightarrow> DataState
       \<Rightarrow> nat \<times> DataState" where
  "loadConversations force now snapshot fetched settledAt current =
     (case loadConversations_start force now snapshot current of
        None \<Rightarrow> (0, current)
      | Some started \<Rightarrow> (1, dataReducer settledAt started (conversationsSettled fetched)))"

subsection \<open>Renders, loads, completions and local mutations interleaved\<close>

text \<open>
  Between the call of the fetcher and its completion the event loop runs other
  handlers. The cache holds the reducer's state, the states of the renders of
  \<open>DataProvider\<close> so far (oldest first; the first render sees \<open>initialState\<close>), and
  the number of fetches outstanding for each collection. An event is
  \<^item> a render, which adds the reducer's state as the newest snapshot;
  \<^item> a call of a load function created by render number \<open>k\<close> (a caller may hold the
    function of any render so far: the mount effect of \<open>DataProvider\<close>, whose
    dependency list is empty, always holds those of render 0);
  \<^item> the completion of an outstanding fetch;
  \<^item> a call of one of the six mutation methods, which only dispatch.
  A call through a render that has not happened and a completion with no fetch
  outstanding cannot occur and leave the cache as it is.
\<close>

datatype event =
    Render
  | CallLoadDocuments nat bool
  | DocumentsFetchSettles "ItemsByType settled"
  | CallLoadConversations nat bool
  | ConversationsFetchSettles "ConversationListResponse settled"
  | CallAddDocument Document
  | CallUpdateDocument Document
  | CallDeleteDocument string
  | CallAddConversation Conversation
  | CallUpdateConversation Conversation
  | CallDeleteConversation string

record Cache =
  reducerState :: DataState
  rendered :: "DataState list"
  documentsFetches :: nat
  conversationsFetches :: nat

definition dispatch :: "int \<Rightarrow> DataAction \<Rightarrow> Cache \<Rightarrow> Cache" where
  "dispatch now a c = c\<lparr> reducerState := dataReducer now (reducerState c) a \<rparr>"

fun step :: "Cache \<Rightarrow> int \<times> event \<Rightarrow> Cache" where
  "step c (now, Render) = c\<lparr> rendered := rendered c @ [reducerState c] \<rparr>"
| "step c (now, CallLoadDocuments k force) =
     (if k < length (rendered c)
      then (case loadDocuments_start force now (rendered c ! k) (reducerState c) of
              None \<Rightarrow> c
            | Some started \<Rightarrow>
                c\<lparr> reducerState := started, documentsFetches := documentsFetches c + 1 \<rparr>)
      else c)"
| "step c (now, DocumentsFetchSettles r) =
     (if documentsFetches c = 0 then c
      else (dispatch now (documentsSettled r) c)\<lparr> documentsFetches := documentsFetches c - 1 \<rparr>)"
| "step c (now, CallLoadConversations k force) =
     (if k < length (rendered c)
      then (case loadConversations_start force now (rendered c ! k) (reducerState c) of
              None \<Rightarrow> c
            | Some started \<Rightarrow>
                c\<lparr> reducerState := started,
                   conversationsFetches := conversationsFetches c + 1 \<rparr>)
      else c)"
| "step c (now, ConversationsFetchSettles r) =
     (if conversationsFetches c = 0 then c
      else (dispatch now (conversationsSettled r) c)
             \<lparr> conversationsFetches := conversationsFetches c - 1 \<rparr>)"
| "step c (now, CallAddDocument d) = dispatch now (ADD_DOCUMENT d) c"
| "step c (now, CallUpdateDocument d) = dispatch now (UPDATE_DOCUMENT d) c"
| "step c (now, CallDeleteDocument i) = dispatch now (DELETE_DOCUMENT i) c"
| "step c (now, CallAddConversation v) = dispatch now (ADD_CONVERSATION v) c"
| "step c (now, CallUpdateConversation v) = dispatch now (UPDATE_CONVERSATION v) c"
| "step c (now, CallDeleteConversation i) = dispatch now (DELETE_CONVERSATION i) c"

definition initialCache :: Cache where
  "initialCache =
     \<lparr> reducerState = initialState, rendered = [initialState],
       documentsFetches = 0, conversationsFetches = 0 \<rparr>"

definition run :: "Cache \<Rightarrow> (int \<times> event) list \<Rightarrow> Cache" where
  "run c evs = foldl step c evs"

section \<open>The Gmail cache (contexts/GmailContext.tsx)\<close>

text \<open>
  Emails and the \<open>updates\<close> argument are typed \<open>any\<close>: objects whose fields hold
  JavaScript values. An object is its list of own properties, in order; reading a
  property that is absent gives \<open>undefined\<close>.
\<close>

datatype jsval = JUndefined | JNull | JBool bool | JNum int | JStr string

type_synonym jsobject = "(string \<times> jsval) list"

definition js_get :: "jsobject \<Rightarrow> string \<Rightarrow> jsval" where
  "js_get obj k = (case map_of obj k of None \<Rightarrow> JUndefined | Some v \<Rightarrow> v)"

fun truthy :: "jsval \<Rightarrow> bool" where
  "truthy JUndefined = False"
| "truthy JNull = False"
| "truthy (JBool b) = b"
| "truthy (JNum n) = (n \<noteq> 0)"
| "truthy (JStr s) = (s \<noteq> [])"

text \<open>The object spread \<open>{ ...a, ...b }\<close>.\<close>

definition js_spread :: "jsobject \<Rightarrow> jsobject \<Rightarrow> jsobject" where
  "js_spread a b = foldl (\<lambda>obj (k, v). AList.update k v obj) a b"

record GmailState =
  isConnected :: bool
  connectedEmail :: "string option"
  isLoading :: bool
  lastCheck :: int
  emails :: "jsobject list"
  totalEmails :: int
  unreadCount :: int
  emailsLoaded :: bool

text \<open>
  \<open>setConnectionStatus(connected, email?)\<close>; \<open>email || null\<close> is \<open>null\<close> for a
  missing and for an empty string. The clock is read for \<open>lastCheck\<close>.
\<close>

definition setConnectionStatus :: "int \<Rightarrow> bool \<Rightarrow> string option \<Rightarrow> GmailState \<Rightarrow> GmailState" where
  "setConnectionStatus now connected email g =
     (let g1 = g\<lparr> isConnected := connected,
                  connectedEmail := (case email of
                                       None \<Rightarrow> None
                                     | Some e \<Rightarrow> if e = [] then None else Some e),
                  lastCheck := now \<rparr>
      in if \<not> connected
         then g1\<lparr> emails := [], totalEmails := 0, unreadCount := 0, emailsLoaded := False \<rparr>
         else g1)"

definition updateEmail :: "string \<Rightarrow> jsobject \<Rightarrow> GmailState \<Rightarrow> GmailState" where
  "updateEmail emailId updates g =
     g\<lparr> emails := map (\<lambda>email. if js_get email ''id'' = JStr emailId
                                then js_spread email updates else email) (emails g),
        unreadCount := (if js_get updates ''is_read'' \<noteq> JUndefined
                        then (if truthy (js_get updates ''is_read'')
                              then max 0 (unreadCount g - 1)
                              else unreadCount g + 1)
                        else unreadCount g) \<rparr>"

definition addEmail :: "jsobject \<Rightarrow> GmailState \<Rightarrow> GmailState" where
  "addEmail email g =
     g\<lparr> emails := email # emails g,
        totalEmails := totalEmails g + 1,
        unreadCount := unreadCount g + 1 \<rparr>"

section \<open>Authentication and the unauthorized event (contexts/AuthContext.tsx, lib/api.ts)\<close>

record User =
  user_id :: string
  user_email :: string
  user_full_name :: string
  user_is_active :: bool
  user_created_at :: string

text \<open>The \<open>error\<close> field of \<open>AuthState\<close> is \<open>authError\<close> here.\<close>

record AuthState =
  isAuthenticated :: bool
  user :: "User option"
  token :: "string option"
  loading :: bool
  authError :: "string option"

datatype AuthAction =
    LOGIN_START
  | LOGIN_SUCCESS User string
  | LOGIN_FAILURE string
  | LOGOUT
  | CLEAR_ERROR

fun authReducer :: "AuthState \<Rightarrow> AuthAction \<Rightarrow> AuthState" where
  "authReducer state LOGIN_START = state\<lparr> loading := True, authError := None \<rparr>"
| "authReducer state (LOGIN_SUCCESS u tok) =
     state\<lparr> loading := False, isAuthenticated := True, user := Some u, token := Some tok,
            authError := None \<rparr>"
| "authReducer state (LOGIN_FAILURE payload) =
     state\<lparr> loading := False, isAuthenticated := False, user := None, token := None,
            authError := Some payload \<rparr>"
| "authReducer state LOGOUT =
     state\<lparr> isAuthenticated := False, user := None, token := None, authError := None,
            loading := False \<rparr>"
| "authReducer state CLEAR_ERROR = state\<lparr> authError := None \<rparr>"

text \<open>
  The application as the three providers of \<open>App.tsx\<close> hold it, with the two
  \<open>localStorage\<close> entries the HTTP client uses. \<open>storageThrows\<close> says that access to
  \<open>localStorage\<close> raises, which the interceptor catches.
\<close>

record App =
  storedToken :: "string option"
  storedUser :: "string option"
  storageThrows :: bool
  authState :: AuthState
  dataState :: DataState
  gmailState :: GmailState

text \<open>
  The listeners registered for \<open>auth:unauthorized\<close>: the one of \<open>AuthProvider\<close>. Neither
  \<open>DataProvider\<close> nor \<open>GmailProvider\<close> registers one. Dispatching the event runs the
  registered listeners in order.
\<close>

definition handleUnauthorized :: "App \<Rightarrow> App" where
  "handleUnauthorized app = app\<lparr> authState := authReducer (authState app) LOGOUT \<rparr>"

definition unauthorizedListeners :: "(App \<Rightarrow> App) list" where
  "unauthorizedListeners = [handleUnauthorized]"

definition dispatchUnauthorized :: "App \<Rightarrow> App" where
  "dispatchUnauthorized app = foldl (\<lambda>a listener. listener a) app unauthorizedListeners"

text \<open>
  The response interceptor's error handler, on the status of the failed response
  (\<open>error.response?.status\<close>, absent when there was no response).
\<close>

definition responseError :: "nat option \<Rightarrow> App \<Rightarrow> App" where
  "responseError status app =
     (if status = Some 401
      then (if storageThrows app then app
            else dispatchUnauthorized (app\<lparr> storedToken := None, storedUser := None \<rparr>))
      else app)"

section \<open>Example values\<close>

definition docA :: Document where
  "docA = \<lparr> doc_id = ''a'', doc_org_id = None, doc_user_id = ''u1'', doc_title = ''Report'',
            doc_document_type = Pdf, doc_filename = Some ''report.pdf'', doc_file_path = None,
            doc_file_size = Some 1024, doc_content_type = None, doc_content = None,
            doc_ocr_text = None, doc_description = None, doc_source_url = None,
            doc_metadata = None, doc_processing_status = Some Completed,
            doc_ocr_status = None, doc_transcription_status = None,
            doc_embeddings_generated = Some True,
            doc_created_at = ''2024-01-01'', doc_updated_at = ''2024-01-01'' \<rparr>"

definition docB :: Document where
  "docB = docA\<lparr> doc_id := ''b'', doc_title := ''Memo'', doc_document_type := Note,
               doc_filename := None, doc_file_size := None \<rparr>"

definition convA :: Conversation where
  "convA = \<lparr> conv_id = ''c1'', conv_user_id = ''u1'', conv_title = ''First chat'',
             conv_created_at = ''2024-01-01'', conv_updated_at = ''2024-01-02'',
             conv_message_count = 2, conv_last_message = Some ''hello'',
             conv_last_message_at = None \<rparr>"

definition convB :: Conversation where
  "convB = convA\<lparr> conv_id := ''c2'', conv_title := ''Second chat'' \<rparr>"

definition cachedState :: DataState where
  "cachedState =
     dispatchAll initialState
       [(1000000, DOCUMENTS_LOADING_SUCCESS [docA, docB]),
        (1000500, CONVERSATIONS_LOADING_SUCCESS [convA])]"

definition erroredState :: DataState where
  "erroredState =
     initialState\<lparr> documentsError := Some ''Network Error'',
                   conversationsError := Some ''Network Error'',
                   hasInitializedDocuments := True,
                   hasInitializedConversations := True \<rparr>"

definition fetchUnsuccessful :: "'a ApiResponse" where
  "fetchUnsuccessful =
     \<lparr> success = False, data = None, error = Some ''Failed to fetch items by type'' \<rparr>"

definition fetchedItems :: "ItemsByType ApiResponse" where
  "fetchedItems =
     \<lparr> success = True,
       data = Some \<lparr> items_documents = [docA], items_notes = [docB], items_audio = [] \<rparr>,
       error = None \<rparr>"

definition fetchedConversations :: "ConversationListResponse ApiResponse" where
  "fetchedConversations =
     \<lparr> success = True,
       data = Some \<lparr> list_conversations = [convA, convB], list_total = 2 \<rparr>,
       error = None \<rparr>"

text \<open>
  Four runs from the mount of \<open>DataProvider\<close>.

  \<open>mountThenVisible\<close>: the mount timer calls \<open>loadDocuments()\<close> of render 0; the
  provider re-renders; the tab becomes visible again and the \<open>visibilitychange\<close>
  handler, registered by render 0 and not replaced while the last-fetch timestamps
  are unchanged, calls \<open>loadDocuments()\<close> of render 0.

  \<open>conversationsCached\<close>: a page loads the conversations through render 0, the fetch
  succeeds, the provider re-renders. The mount timer's \<open>loadConversations()\<close>, again
  of render 0, comes next.

  \<open>capturedWhileLoading\<close>: a load of the documents starts, the provider re-renders
  with the loading flag set (render 1), the fetch succeeds, the provider re-renders.
  A handler that took \<open>loadDocuments\<close> from render 1, as the upload handler of the
  documents page does for its delayed \<open>loadDocuments(true)\<close>, calls it next.

  \<open>refreshAllTwice\<close>: \<open>refreshAll()\<close>, which calls both loads with \<open>force\<close> true,
  is called twice through the context value of render 0.
\<close>

definition mountThenVisible :: "(int \<times> event) list" where
  "mountThenVisible =
     [(50, CallLoadDocuments 0 False), (60, Render), (70, CallLoadDocuments 0 False)]"

definition conversationsCached :: "(int \<times> event) list" where
  "conversationsCached =
     [(10, CallLoadConversations 0 False),
      (400, ConversationsFetchSettles (Resolved fetchedConversations)),
      (410, Render)]"

definition capturedWhileLoading :: "(int \<times> event) list" where
  "capturedWhileLoading =
     [(10, CallLoadDocuments 0 False), (20, Render),
      (400, DocumentsFetchSettles (Resolved fetchedItems)), (410, Render)]"

definition refreshAllTwice :: "(int \<times> event) list" where
  "refreshAllTwice =
     [(50, CallLoadDocuments 0 True), (50, CallLoadConversations 0 True),
      (51, CallLoadDocuments 0 True), (51, CallLoadConversations 0 True)]"

definition fetchedWithoutData :: "ConversationListResponse ApiResponse" where
  "fetchedWithoutData = \<lparr> success = True, data = None, error = None \<rparr>"

definition mixedActions :: "(int \<times> DataAction) list" where
  "mixedActions =
     [(1000, DOCUMENTS_LOADING_SUCCESS [docA, docB]),
      (2000, ADD_CONVERSATION convA),
      (3000, UPDATE_CONVERSATION (convA\<lparr> conv_title := ''Renamed'' \<rparr>)),
      (4000, ADD_CONVERSATION convB),
      (5000, DELETE_DOCUMENT ''a''),
      (6000, DELETE_CONVERSATION ''c1''),
      (7000, ADD_DOCUMENT docA),
      (8000, UPDATE_DOCUMENT (docA\<lparr> doc_document_type := Audio \<rparr>))]"

definition aliceUser :: User where
  "aliceUser =
     \<lparr> user_id = ''u1'', user_email = ''alice@example.com'', user_full_name = ''Alice'',
       user_is_active = True, user_created_at = ''2024-01-01'' \<rparr>"

definition emailOne :: jsobject where
  "emailOne = [(''id'', JStr ''m1''), (''subject'', JStr ''Hello''), (''is_read'', JBool False)]"

definition connectedGmail :: GmailState where
  "connectedGmail =
     \<lparr> isConnected = True, connectedEmail = Some ''alice@example.com'', isLoading = False,
       lastCheck = 1000000, emails = [emailOne], totalEmails = 1, unreadCount = 1,
       emailsLoaded = True \<rparr>"

definition signedInApp :: App where
  "signedInApp =
     \<lparr> storedToken = Some ''jwt'', storedUser = Some ''alice'', storageThrows = False,
       authState = \<lparr> isAuthenticated = True, user = Some aliceUser, token = Some ''jwt'',
                     loading = False, authError = None \<rparr>,
       dataState = cachedState,
       gmailState = connectedGmail \<rparr>"

section \<open>Facts about the example values\<close>

lemma example_ids:
  "doc_id docA = ''a''" "doc_id docB = ''b''" "conv_id convA = ''c1''" "conv_id convB = ''c2''"
  by (simp_all add: docA_def docB_def convA_def convB_def)

lemma cachedState_eq:
  "cachedState =
     initialState\<lparr> documents := [docA, docB], conversations := [convA],
       documentsLastFetch := Some 1000000, conversationsLastFetch := Some 1000500,
       stats := \<lparr> totalDocuments = 1, totalNotes = 1, totalAudio = 0, totalItems = 2,
                  totalConversations = 1 \<rparr>,
       hasInitializedDocuments := True, hasInitializedConversations := True \<rparr>"
  by (simp add: cachedState_def dispatchAll_def initialState_def calculateStats_def
        docA_def docB_def)

lemma cachedState_fields:
  "documents cachedState = [docA, docB]" "conversations cachedState = [convA]"
  "documentsLastFetch cachedState = Some 1000000"
  "conversationsLastFetch cachedState = Some 1000500"
  "\<not> documentsLoading cachedState" "\<not> conversationsLoading cachedState"
  by (simp_all add: cachedState_eq initialState_def)

section \<open>The guards of a load\<close>

text \<open>
  What the two guards do, in terms of the state they read. When the snapshot has no
  load in flight: an unforced load whose snapshot is fresh and not empty returns
  without a dispatch or a fetch, and a forced load calls the fetcher once. When the
  snapshot has a load in flight, the load returns at once.
\<close>

lemma load_guards_read_snapshot:
  "(\<not> documentsLoading snap \<longrightarrow>
      (\<not> isStale Documents now snap \<and> documents snap \<noteq> [] \<longrightarrow>
         loadDocuments False now snap fd settledAt cur = (0, cur)) \<and>
      fst (loadDocuments True now snap fd settledAt cur) = 1) \<and>
   (\<not> conversationsLoading snap \<longrightarrow>
      (\<not> isStale Conversations now snap \<and> conversations snap \<noteq> [] \<longrightarrow>
         loadConversations False now snap fc settledAt cur = (0, cur)) \<and>
      fst (loadConversations True now snap fc settledAt cur) = 1) \<and>
   (documentsLoading snap \<longrightarrow> loadDocuments force now snap fd settledAt cur = (0, cur)) \<and>
   (conversationsLoading snap \<longrightarrow>
      loadConversations force now snap fc settledAt cur = (0, cur))"
  by (simp add: loadDocuments_def loadDocuments_start_def
        loadConversations_def loadConversations_start_def)

lemma runs_evaluated:
  "run initialCache conversationsCached =
     \<lparr> reducerState = dataReducer 400 (dataReducer 10 initialState CONVERSATIONS_LOADING_START)
                        (CONVERSATIONS_LOADING_SUCCESS [convA, convB]),
       rendered = [initialState,
                   dataReducer 400 (dataReducer 10 initialState CONVERSATIONS_LOADING_START)
                     (CONVERSATIONS_LOADING_SUCCESS [convA, convB])],
       documentsFetches = 0, conversationsFetches = 0 \<rparr>"
  "run initialCache capturedWhileLoading =
     \<lparr> reducerState = dataReducer 400 (dataReducer 10 initialState DOCUMENTS_LOADING_START)
                        (DOCUMENTS_LOADING_SUCCESS [docA, docB]),
       rendered = [initialState,
                   dataReducer 10 initialState DOCUMENTS_LOADING_START,
                   dataReducer 400 (dataReducer 10 initialState DOCUMENTS_LOADING_START)
                     (DOCUMENTS_LOADING_SUCCESS [docA, docB])],
       documentsFetches = 0, conversationsFetches = 0 \<rparr>"
  by (simp_all add: run_def conversationsCached_def capturedWhileLoading_def initialCache_def
        loadConversations_start_def loadDocuments_start_def isStale_def initialState_def
        dispatch_def conversationsSettled_def documentsSettled_def
        fetchedConversations_def fetchedItems_def)

text \<open>
  C1 does not hold of the code; the code means it to (``Don't load if data is fresh
  and not forced (SMART CACHING)'', ``Force refresh''), but its guards read the state
  of the render that created the function called, not the collection's state at the
  call.

  After \<open>conversationsCached\<close> no conversations fetch is outstanding, the loading flag
  is clear, the mark set at 400 is fresh at 500 and the collection holds two
  conversations; the unforced \<open>loadConversations()\<close> of render 0 still calls the
  fetcher and sets the loading flag. After \<open>capturedWhileLoading\<close> no documents fetch
  is outstanding and the loading flag is clear; the forced \<open>loadDocuments(true)\<close> of
  render 1 returns without a fetch and leaves the cache as it was.
\<close>

theorem stale_snapshot_defeats_cache_guards:
  "conversationsFetches (run initialCache conversationsCached) = 0 \<and>
   \<not> conversationsLoading (reducerState (run initialCache conversationsCached)) \<and>
   \<not> isStale Conversations 500 (reducerState (run initialCache conversationsCached)) \<and>
   conversations (reducerState (run initialCache conversationsCached)) = [convA, convB] \<and>
   conversationsFetches
     (step (run initialCache conversationsCached) (500, CallLoadConversations 0 False)) = 1 \<and>
   conversationsLoading
     (reducerState
        (step (run initialCache conversationsCached) (500, CallLoadConversations 0 False))) \<and>
   documentsFetches (run initialCache capturedWhileLoading) = 0 \<and>
   \<not> documentsLoading (reducerState (run initialCache capturedWhileLoading)) \<and>
   step (run initialCache capturedWhileLoading) (500, CallLoadDocuments 1 True)
     = run initialCache capturedWhileLoading \<and>
   documentsFetches
     (step (run initialCache capturedWhileLoading) (500, CallLoadDocuments 1 True)) = 0"
  by (simp add: runs_evaluated loadConversations_start_def loadDocuments_start_def
        isStale_def CACHE_DURATION_def initialState_def)

section \<open>A failed fetch\<close>

text \<open>
  C2. When a load calls the fetcher and the fetch fails, the collection's contents
  afterwards are those before the call, the collection's last-fetch timestamp is the
  one before the call, and the collection's error field holds the failure's message:
  the message \<open>m\<close> of the error when the promise rejects; when it resolves without
  success or without data, the response's \<open>error\<close> text, or the text
  ``Failed to load documents'' (``Failed to load conversations'') when that is
  missing or empty. This holds whatever render the load function came from. The
  failure action alone has the same effects on any state.
\<close>

theorem failed_load_keeps_cache:
  "(fst (loadDocuments force now snap (Rejected m) settledAt s) = 1 \<longrightarrow>
      documents (snd (loadDocuments force now snap (Rejected m) settledAt s)) = documents s \<and>
      documentsError (snd (loadDocuments force now snap (Rejected m) settledAt s)) = Some m \<and>
      documentsLastFetch (snd (loadDocuments force now snap (Rejected m) settledAt s))
        = documentsLastFetch s) \<and>
   (fst (loadDocuments force now snap (Resolved r) settledAt s) = 1 \<and>
    (\<not> success r \<or> data r = None) \<longrightarrow>
      documents (snd (loadDocuments force now snap (Resolved r) settledAt s)) = documents s \<and>
      documentsError (snd (loadDocuments force now snap (Resolved r) settledAt s))
        = Some (case error r of
                  None \<Rightarrow> ''Failed to load documents''
                | Some e \<Rightarrow> if e = [] then ''Failed to load documents'' else e) \<and>
      documentsLastFetch (snd (loadDocuments force now snap (Resolved r) settledAt s))
        = documentsLastFetch s) \<and>
   (fst (loadConversations force now snap (Rejected m) settledAt s) = 1 \<longrightarrow>
      conversations (snd (loadConversations force now snap (Rejected m) settledAt s))
        = conversations s \<and>
      conversationsError (snd (loadConversations force now snap (Rejected m) settledAt s))
        = Some m \<and>
      conversationsLastFetch (snd (loadConversations force now snap (Rejected m) settledAt s))
        = conversationsLastFetch s) \<and>
   (fst (loadConversations force now snap (Resolved r') settledAt s) = 1 \<and>
    (\<not> success r' \<or> data r' = None) \<longrightarrow>
      conversations (snd (loadConversations force now snap (Resolved r') settledAt s))
        = conversations s \<and>
      conversationsError (snd (loadConversations force now snap (Resolved r') settledAt s))
        = Some (case error r' of
                  None \<Rightarrow> ''Failed to load conversations''
                | Some e \<Rightarrow> if e = [] then ''Failed to load conversations'' else e) \<and>
      conversationsLastFetch (snd (loadConversations force now snap (Resolved r') settledAt s))
        = conversationsLastFetch s) \<and>
   documents (dataReducer settledAt s (DOCUMENTS_LOADING_FAILURE m)) = documents s \<and>
   documentsError (dataReducer settledAt s (DOCUMENTS_LOADING_FAILURE m)) = Some m \<and>
   documentsLastFetch (dataReducer settledAt s (DOCUMENTS_LOADING_FAILURE m))
     = documentsLastFetch s \<and>
   conversations (dataReducer settledAt s (CONVERSATIONS_LOADING_FAILURE m))
     = conversations s \<and>
   conversationsError (dataReducer settledAt s (CONVERSATIONS_LOADING_FAILURE m)) = Some m \<and>
   conversationsLastFetch (dataReducer settledAt s (CONVERSATIONS_LOADING_FAILURE m))
     = conversationsLastFetch s"
proof -
  have docs_rejected:
    "fst (loadDocuments force now snap (Rejected m) settledAt s) = 1 \<longrightarrow>
      documents (snd (loadDocuments force now snap (Rejected m) settledAt s)) = documents s \<and>
      documentsError (snd (loadDocuments force now snap (Rejected m) settledAt s)) = Some m \<and>
      documentsLastFetch (snd (loadDocuments force now snap (Rejected m) settledAt s))
        = documentsLastFetch s"
    by (simp add: loadDocuments_def loadDocuments_start_def documentsSettled_def)
  have docs_unsuccessful:
    "fst (loadDocuments force now snap (Resolved r) settledAt s) = 1 \<and>
     (\<not> success r \<or> data r = None) \<longrightarrow>
      documents (snd (loadDocuments force now snap (Resolved r) settledAt s)) = documents s \<and>
      documentsError (snd (loadDocuments force now snap (Resolved r) settledAt s))
        = Some (case error r of
                  None \<Rightarrow> ''Failed to load documents''
                | Some e \<Rightarrow> if e = [] then ''Failed to load documents'' else e) \<and>
      documentsLastFetch (snd (loadDocuments force now snap (Resolved r) settledAt s))
        = documentsLastFetch s"
    by (auto simp: loadDocuments_def loadDocuments_start_def documentsSettled_def errorOr_def
          split: option.splits)
  have convs_rejected:
    "fst (loadConversations force now snap (Rejected m) settledAt s) = 1 \<longrightarrow>
      conversations (snd (loadConversations force now snap (Rejected m) settledAt s))
        = conversations s \<and>
      conversationsError (snd (loadConversations force now snap (Rejected m) settledAt s))
        = Some m \<and>
      conversationsLastFetch (snd (loadConversations force now snap (Rejected m) settledAt s))
        = conversationsLastFetch s"
    by (simp add: loadConversations_def loadConversations_start_def conversationsSettled_def)
  have convs_unsuccessful:
    "fst (loadConversations force now snap (Resolved r') settledAt s) = 1 \<and>
     (\<not> success r' \<or> data r' = None) \<longrightarrow>
      conversations (snd (loadConversations force now snap (Resolved r') settledAt s))
        = conversations s \<and>
      conversationsError (snd (loadConversations force now snap (Resolved r') settledAt s))
        = Some (case error r' of
                  None \<Rightarrow> ''Failed to load conversations''
                | Some e \<Rightarrow> if e = [] then ''Failed to load conversations'' else e) \<and>
      conversationsLastFetch (snd (loadConversations force now snap (Resolved r') settledAt s))
        = conversationsLastFetch s"
    by (auto simp: loadConversations_def loadConversations_start_def conversationsSettled_def
          errorOr_def split: option.splits)
  show ?thesis
    using docs_rejected docs_unsuccessful convs_rejected convs_unsuccessful by simp
qed

theorem failed_load_keeps_cache_witness:
  "documents cachedState = [docA, docB] \<and>
   fst (loadDocuments True 1060000 cachedState (Rejected ''Network Error'') 1060900 cachedState)
     = 1 \<and>
   documents
       (snd (loadDocuments True 1060000 cachedState (Rejected ''Network Error'') 1060900
               cachedState))
     = [docA, docB] \<and>
   documentsError
       (snd (loadDocuments True 1060000 cachedState (Rejected ''Network Error'') 1060900
               cachedState))
     = Some ''Network Error'' \<and>
   documentsLastFetch
       (snd (loadDocuments True 1060000 cachedState (Rejected ''Network Error'') 1060900
               cachedState))
     = Some 1000000 \<and>
   fst (loadDocuments True 1060000 cachedState (Resolved fetchUnsuccessful) 1060900 cachedState)
     = 1 \<and>
   \<not> success (fetchUnsuccessful :: ItemsByType ApiResponse) \<and>
   documents
       (snd (loadDocuments True 1060000 cachedState (Resolved fetchUnsuccessful) 1060900
               cachedState))
     = [docA, docB] \<and>
   documentsError
       (snd (loadDocuments True 1060000 cachedState (Resolved fetchUnsuccessful) 1060900
               cachedState))
     = Some ''Failed to fetch items by type'' \<and>
   documentsLastFetch
       (snd (loadDocuments True 1060000 cachedState (Resolved fetchUnsuccessful) 1060900
               cachedState))
     = Some 1000000 \<and>
   conversations cachedState = [convA] \<and>
   fst (loadConversations True 1060000 cachedState (Rejected ''Network Error'') 1060900
          cachedState) = 1 \<and>
   conversationsError
       (snd (loadConversations True 1060000 cachedState (Rejected ''Network Error'') 1060900
               cachedState))
     = Some ''Network Error'' \<and>
   fst (loadConversations True 1060000 cachedState (Resolved fetchedWithoutData) 1060900
          cachedState) = 1 \<and>
   data fetchedWithoutData = None \<and>
   conversations
       (snd (loadConversations True 1060000 cachedState (Resolved fetchedWithoutData) 1060900
               cachedState))
     = [convA] \<and>
   conversationsError
       (snd (loadConversations True 1060000 cachedState (Resolved fetchedWithoutData) 1060900
               cachedState))
     = Some ''Failed to load conversations'' \<and>
   conversationsLastFetch
       (snd (loadConversations True 1060000 cachedState (Resolved fetchedWithoutData) 1060900
               cachedState))
     = Some 1000500"
  using failed_load_keeps_cache [where force = True and now = 1060000 and snap = cachedState
      and m = "''Network Error''" and r = fetchUnsuccessful and r' = fetchedWithoutData
      and settledAt = 1060900 and s = cachedState]
  by (simp add: cachedState_fields loadDocuments_def loadDocuments_start_def
        loadConversations_def loadConversations_start_def
        fetchUnsuccessful_def fetchedWithoutData_def)

section \<open>Loads in flight\<close>

text \<open>
  C3 does not hold of the code; the code means it to (``Don't load if already
  loading''), but the guard reads the loading flag of the render that created the
  function called. In \<open>mountThenVisible\<close> the second \<open>loadDocuments()\<close> is called
  while the first fetch is outstanding and the reducer's loading flag is set; it goes
  through the function of render 0, whose snapshot has the flag clear, and calls the
  fetcher again: two fetches are outstanding. \<open>refreshAll\<close> called twice through one
  render's function does the same for both collections. Had the second call gone
  through the function of the render that followed the first call, it would have
  returned at once.
\<close>

theorem stale_snapshot_double_fetch:
  "documentsFetches (run initialCache [(50, CallLoadDocuments 0 False), (60, Render)]) = 1 \<and>
   documentsLoading
     (reducerState (run initialCache [(50, CallLoadDocuments 0 False), (60, Render)])) \<and>
   documentsFetches (run initialCache mountThenVisible) = 2 \<and>
   documentsFetches (run initialCache refreshAllTwice) = 2 \<and>
   conversationsFetches (run initialCache refreshAllTwice) = 2 \<and>
   documentsFetches
     (run initialCache
        [(50, CallLoadDocuments 0 False), (60, Render), (70, CallLoadDocuments 1 False)]) = 1"
  by (simp add: run_def mountThenVisible_def refreshAllTwice_def initialCache_def
        loadDocuments_start_def loadConversations_start_def isStale_def initialState_def)

section \<open>Adding an entity\<close>

text \<open>
  C4 as stated does not hold. Adding \<open>docA\<close> to a collection that already holds an
  entity with its id is not a no-op: the collection then holds \<open>docA\<close> twice and its
  ids are no longer distinct; likewise for a conversation.
\<close>

theorem add_existing_id_counterexample:
  "doc_id docA \<in> set (map doc_id (documents cachedState)) \<and>
   distinct (map doc_id (documents cachedState)) \<and>
   documents (dataReducer 2000000 cachedState (ADD_DOCUMENT docA)) = [docA, docB, docA] \<and>
   dataReducer 2000000 cachedState (ADD_DOCUMENT docA) \<noteq> cachedState \<and>
   \<not> distinct (map doc_id (documents (dataReducer 2000000 cachedState (ADD_DOCUMENT docA)))) \<and>
   conv_id convA \<in> set (map conv_id (conversations cachedState)) \<and>
   conversations (dataReducer 2000000 cachedState (ADD_CONVERSATION convA)) = [convA, convA] \<and>
   \<not> distinct
       (map conv_id (conversations (dataReducer 2000000 cachedState (ADD_CONVERSATION convA))))"
proof -
  have "documents (dataReducer 2000000 cachedState (ADD_DOCUMENT docA))
          \<noteq> documents cachedState"
    by (simp add: cachedState_fields Let_def)
  then have "dataReducer 2000000 cachedState (ADD_DOCUMENT docA) \<noteq> cachedState"
    by auto
  then show ?thesis
    by (simp add: cachedState_fields example_ids Let_def)
qed

text \<open>
  C4, amended. For every state and every entity \<open>e\<close>, the add operation inserts
  \<open>e\<close> whether or not an entity with the same id exists: \<open>ADD_DOCUMENT\<close> appends it and
  \<open>ADD_CONVERSATION\<close> prepends it. The ids of the collection are distinct after the
  add exactly when they were distinct before it and the id of \<open>e\<close> was not among them.
\<close>

theorem add_always_inserts:
  "documents (dataReducer now s (ADD_DOCUMENT e)) = documents s @ [e] \<and>
   conversations (dataReducer now s (ADD_CONVERSATION c)) = c # conversations s \<and>
   distinct (map doc_id (documents (dataReducer now s (ADD_DOCUMENT e))))
     = (distinct (map doc_id (documents s)) \<and> doc_id e \<notin> set (map doc_id (documents s))) \<and>
   distinct (map conv_id (conversations (dataReducer now s (ADD_CONVERSATION c))))
     = (distinct (map conv_id (conversations s)) \<and>
        conv_id c \<notin> set (map conv_id (conversations s)))"
  by (auto simp: Let_def)

theorem add_always_inserts_witness:
  "documents (dataReducer 2000000 cachedState (ADD_DOCUMENT docA)) = [docA, docB, docA] \<and>
   conversations (dataReducer 2000000 cachedState (ADD_CONVERSATION convB)) = [convB, convA] \<and>
   \<not> distinct (map doc_id (documents (dataReducer 2000000 cachedState (ADD_DOCUMENT docA)))) \<and>
   distinct
     (map conv_id (conversations (dataReducer 2000000 cachedState (ADD_CONVERSATION convB))))"
  using add_always_inserts [where now = 2000000 and s = cachedState and e = docA and c = convB]
  by (simp add: cachedState_fields example_ids)

section \<open>The unauthorized event\<close>

text \<open>
  C5 as stated does not hold. A response with status 401 reaches an application that
  is signed in and holds two cached documents and one cached conversation; after the
  interceptor has dispatched the event, both collections and both last-fetch
  timestamps are what they were.
\<close>

theorem unauthorized_keeps_cache_counterexample:
  "documents (dataState (responseError (Some 401) signedInApp)) = [docA, docB] \<and>
   conversations (dataState (responseError (Some 401) signedInApp)) = [convA] \<and>
   documentsLastFetch (dataState (responseError (Some 401) signedInApp)) = Some 1000000 \<and>
   conversationsLastFetch (dataState (responseError (Some 401) signedInApp)) = Some 1000500 \<and>
   documents (dataState (dispatchUnauthorized signedInApp)) = [docA, docB]"
  by (simp add: responseError_def dispatchUnauthorized_def unauthorizedListeners_def
        handleUnauthorized_def signedInApp_def cachedState_fields)

text \<open>
  C5, amended. When the unauthorized event fires, the authentication state is logged
  out (not authenticated, no user, no token) and the data cache is left as it is:
  the documents and conversations collections and their last-fetch timestamps keep
  their values, as does the Gmail cache. The interceptor, on a 401 response with
  \<open>localStorage\<close> accessible, also removes the stored token and the stored user.
\<close>

theorem unauthorized_resets_auth_only:
  "dataState (dispatchUnauthorized app) = dataState app \<and>
   gmailState (dispatchUnauthorized app) = gmailState app \<and>
   authState (dispatchUnauthorized app) = authReducer (authState app) LOGOUT \<and>
   \<not> isAuthenticated (authState (dispatchUnauthorized app)) \<and>
   user (authState (dispatchUnauthorized app)) = None \<and>
   token (authState (dispatchUnauthorized app)) = None \<and>
   dataState (responseError status app) = dataState app \<and>
   (status = Some 401 \<and> \<not> storageThrows app \<longrightarrow>
      storedToken (responseError status app) = None \<and>
      storedUser (responseError status app) = None \<and>
      \<not> isAuthenticated (authState (responseError status app)) \<and>
      token (authState (responseError status app)) = None)"
  by (simp add: responseError_def dispatchUnauthorized_def unauthorizedListeners_def
        handleUnauthorized_def)

theorem unauthorized_resets_auth_only_witness:
  "dataState (dispatchUnauthorized signedInApp) = cachedState \<and>
   \<not> isAuthenticated (authState (dispatchUnauthorized signedInApp)) \<and>
   \<not> storageThrows signedInApp \<and>
   dataState (responseError (Some 401) signedInApp) = cachedState \<and>
   storedToken (responseError (Some 401) signedInApp) = None \<and>
   storedUser (responseError (Some 401) signedInApp) = None \<and>
   \<not> isAuthenticated (authState (responseError (Some 401) signedInApp)) \<and>
   token (authState (responseError (Some 401) signedInApp)) = None"
  using unauthorized_resets_auth_only [where app = signedInApp and status = "Some 401"]
  by (simp add: signedInApp_def)

section \<open>Derived statistics\<close>

lemma dataReducer_stats:
  assumes "stats s = calculateStats (documents s) (length (conversations s))"
  shows "stats (dataReducer now s a)
           = calculateStats (documents (dataReducer now s a))
               (length (conversations (dataReducer now s a)))"
proof -
  have n: "totalConversations (stats s) = length (conversations s)"
    using assms by (simp add: calculateStats_def)
  show ?thesis
  proof (cases a)
    case (DOCUMENTS_LOADING_SUCCESS payload)
    then show ?thesis using n by simp
  next
    case (ADD_DOCUMENT payload)
    then show ?thesis using n by (simp add: Let_def)
  next
    case (UPDATE_DOCUMENT payload)
    then show ?thesis using n by (simp add: Let_def)
  next
    case (DELETE_DOCUMENT payload)
    then show ?thesis using n by (simp add: Let_def)
  next
    case (UPDATE_CONVERSATION payload)
    then show ?thesis using assms by simp
  qed (use assms in \<open>simp_all add: Let_def\<close>)
qed

lemma dispatchAll_stats:
  "stats s = calculateStats (documents s) (length (conversations s)) \<Longrightarrow>
   stats (dispatchAll s acts)
     = calculateStats (documents (dispatchAll s acts))
         (length (conversations (dispatchAll s acts)))"
proof (induction acts arbitrary: s)
  case Nil
  then show ?case by (simp add: dispatchAll_def)
next
  case (Cons x acts)
  obtain now a where x: "x = (now, a)" by (cases x)
  have "dispatchAll s (x # acts) = dispatchAll (dataReducer now s a) acts"
    by (simp add: dispatchAll_def x)
  then show ?case
    using Cons.IH [OF dataReducer_stats [OF Cons.prems]] by simp
qed

lemma initialState_stats:
  "stats initialState
     = calculateStats (documents initialState) (length (conversations initialState))"
  by (simp add: initialState_def calculateStats_def)

text \<open>
  C6. From the initial state, after every sequence of dispatched actions (replace-all
  by a successful load, add, update and delete on either collection, and every other
  action of the reducer), the \<open>stats\<close> field of the state equals \<open>calculateStats\<close>
  recomputed from the current documents list and the current number of conversations.
\<close>

theorem stats_never_drift:
  "stats (dispatchAll initialState acts)
     = calculateStats (documents (dispatchAll initialState acts))
         (length (conversations (dispatchAll initialState acts)))"
  by (rule dispatchAll_stats [OF initialState_stats])

theorem stats_never_drift_witness:
  "documents (dispatchAll initialState mixedActions)
     = [docB, docA\<lparr> doc_document_type := Audio \<rparr>] \<and>
   length (conversations (dispatchAll initialState mixedActions)) = 1 \<and>
   stats (dispatchAll initialState mixedActions)
     = calculateStats [docB, docA\<lparr> doc_document_type := Audio \<rparr>] 1 \<and>
   calculateStats [docB, docA\<lparr> doc_document_type := Audio \<rparr>] 1
     = \<lparr> totalDocuments = 0, totalNotes = 1, totalAudio = 1, totalItems = 2,
         totalConversations = 1 \<rparr>"
proof -
  have d: "documents (dispatchAll initialState mixedActions)
             = [docB, docA\<lparr> doc_document_type := Audio \<rparr>]"
    by (simp add: dispatchAll_def mixedActions_def initialState_def Let_def example_ids)
  have c: "length (conversations (dispatchAll initialState mixedActions)) = 1"
    by (simp add: dispatchAll_def mixedActions_def initialState_def Let_def example_ids)
  have v: "calculateStats [docB, docA\<lparr> doc_document_type := Audio \<rparr>] 1
             = \<lparr> totalDocuments = 0, totalNotes = 1, totalAudio = 1, totalItems = 2,
                 totalConversations = 1 \<rparr>"
    by (simp add: calculateStats_def docA_def docB_def)
  show ?thesis
    using stats_never_drift [of mixedActions] d c v by simp
qed

section \<open>Staleness\<close>




section \<open>A successful fetch\<close>

text \<open>
  C8. When a load calls the fetcher and the fetch succeeds, the state afterwards has
  the collection's contents equal to the fetched sequence (for documents: the fetched
  documents, notes and audio, in this order), the last-fetch timestamp set to the
  clock's reading at completion, the loading flag cleared and the collection's error
  cleared, whatever render the load function came from. The success action alone has
  these effects on any state and with any sequence \<open>S\<close>, whatever the collection
  held before.
\<close>

theorem successful_load_replaces_all:
  "(fst (loadDocuments force now snap (Resolved r) settledAt s) = 1 \<and> success r \<and>
    data r = Some d \<longrightarrow>
      documents (snd (loadDocuments force now snap (Resolved r) settledAt s))
        = items_documents d @ items_notes d @ items_audio d \<and>
      documentsLastFetch (snd (loadDocuments force now snap (Resolved r) settledAt s))
        = Some settledAt \<and>
      \<not> documentsLoading (snd (loadDocuments force now snap (Resolved r) settledAt s)) \<and>
      documentsError (snd (loadDocuments force now snap (Resolved r) settledAt s)) = None) \<and>
   (fst (loadConversations force now snap (Resolved r') settledAt s) = 1 \<and> success r' \<and>
    data r' = Some d' \<longrightarrow>
      conversations (snd (loadConversations force now snap (Resolved r') settledAt s))
        = list_conversations d' \<and>
      conversationsLastFetch (snd (loadConversations force now snap (Resolved r') settledAt s))
        = Some settledAt \<and>
      \<not> conversationsLoading
          (snd (loadConversations force now snap (Resolved r') settledAt s)) \<and>
      conversationsError (snd (loadConversations force now snap (Resolved r') settledAt s))
        = None) \<and>
   documents (dataReducer settledAt s (DOCUMENTS_LOADING_SUCCESS S)) = S \<and>
   documentsLastFetch (dataReducer settledAt s (DOCUMENTS_LOADING_SUCCESS S)) = Some settledAt \<and>
   \<not> documentsLoading (dataReducer settledAt s (DOCUMENTS_LOADING_SUCCESS S)) \<and>
   documentsError (dataReducer settledAt s (DOCUMENTS_LOADING_SUCCESS S)) = None \<and>
   conversations (dataReducer settledAt s (CONVERSATIONS_LOADING_SUCCESS S')) = S' \<and>
   conversationsLastFetch (dataReducer settledAt s (CONVERSATIONS_LOADING_SUCCESS S'))
     = Some settledAt \<and>
   \<not> conversationsLoading (dataReducer settledAt s (CONVERSATIONS_LOADING_SUCCESS S')) \<and>
   conversationsError (dataReducer settledAt s (CONVERSATIONS_LOADING_SUCCESS S')) = None"
  by (simp add: loadDocuments_def loadDocuments_start_def
        loadConversations_def loadConversations_start_def
        documentsSettled_def conversationsSettled_def)

theorem successful_load_replaces_all_witness:
  "documentsError erroredState = Some ''Network Error'' \<and>
   fst (loadDocuments False 5000 erroredState (Resolved fetchedItems) 5800 erroredState) = 1 \<and>
   success fetchedItems \<and>
   documents
       (snd (loadDocuments False 5000 erroredState (Resolved fetchedItems) 5800 erroredState))
     = [docA, docB] \<and>
   documentsLastFetch
       (snd (loadDocuments False 5000 erroredState (Resolved fetchedItems) 5800 erroredState))
     = Some 5800 \<and>
   \<not> documentsLoading
       (snd (loadDocuments False 5000 erroredState (Resolved fetchedItems) 5800 erroredState)) \<and>
   documentsError
       (snd (loadDocuments False 5000 erroredState (Resolved fetchedItems) 5800 erroredState))
     = None \<and>
   fst (loadConversations False 5000 erroredState (Resolved fetchedConversations) 5800
          erroredState) = 1 \<and>
   success fetchedConversations \<and>
   conversations
       (snd (loadConversations False 5000 erroredState (Resolved fetchedConversations) 5800
               erroredState))
     = [convA, convB] \<and>
   conversationsLastFetch
       (snd (loadConversations False 5000 erroredState (Resolved fetchedConversations) 5800
               erroredState))
     = Some 5800 \<and>
   \<not> conversationsLoading
       (snd (loadConversations False 5000 erroredState (Resolved fetchedConversations) 5800
               erroredState)) \<and>
   conversationsError
       (snd (loadConversations False 5000 erroredState (Resolved fetchedConversations) 5800
               erroredState))
     = None"
  using successful_load_replaces_all [where force = False and now = 5000
      and snap = erroredState and r = fetchedItems
      and settledAt = 5800 and s = erroredState
      and d = "\<lparr> items_documents = [docA], items_notes = [docB], items_audio = [] \<rparr>"
      and r' = fetchedConversations
      and d' = "\<lparr> list_conversations = [convA, convB], list_total = 2 \<rparr>"]
  by (simp add: erroredState_def initialState_def fetchedItems_def fetchedConversations_def
        loadDocuments_def loadDocuments_start_def loadConversations_def
        loadConversations_start_def isStale_def)

section \<open>Disconnecting Gmail\<close>

text \<open>
  C9 as stated does not hold. \<open>setConnectionStatus(false, email)\<close> with a non-empty
  \<open>email\<close> leaves \<open>connectedEmail\<close> holding that address, not \<open>null\<close>.
\<close>

theorem disconnect_with_email_counterexample:
  "connectedEmail (setConnectionStatus 2000000 False (Some ''bob@example.com'') connectedGmail)
     = Some ''bob@example.com''"
  by (simp add: setConnectionStatus_def connectedGmail_def)

text \<open>
  C9, amended. For every Gmail state, \<open>setConnectionStatus\<close> with \<open>connected\<close> false
  makes \<open>emails\<close> empty, \<open>totalEmails\<close> 0, \<open>unreadCount\<close> 0 and \<open>emailsLoaded\<close> false;
  \<open>connectedEmail\<close> becomes \<open>null\<close> when the \<open>email\<close> argument is omitted or empty,
  and the given address otherwise.
\<close>

theorem disconnect_clears_emails:
  "emails (setConnectionStatus now False email g) = [] \<and>
   totalEmails (setConnectionStatus now False email g) = 0 \<and>
   unreadCount (setConnectionStatus now False email g) = 0 \<and>
   \<not> emailsLoaded (setConnectionStatus now False email g) \<and>
   \<not> isConnected (setConnectionStatus now False email g) \<and>
   connectedEmail (setConnectionStatus now False None g) = None \<and>
   connectedEmail (setConnectionStatus now False (Some []) g) = None \<and>
   (e \<noteq> [] \<longrightarrow> connectedEmail (setConnectionStatus now False (Some e) g) = Some e)"
  by (simp add: setConnectionStatus_def)

theorem disconnect_clears_emails_witness:
  "emails connectedGmail = [emailOne] \<and>
   emails (setConnectionStatus 2000000 False None connectedGmail) = [] \<and>
   totalEmails (setConnectionStatus 2000000 False None connectedGmail) = 0 \<and>
   unreadCount (setConnectionStatus 2000000 False None connectedGmail) = 0 \<and>
   \<not> emailsLoaded (setConnectionStatus 2000000 False None connectedGmail) \<and>
   connectedEmail (setConnectionStatus 2000000 False None connectedGmail) = None \<and>
   ''bob@example.com'' \<noteq> [] \<and>
   connectedEmail (setConnectionStatus 2000000 False (Some ''bob@example.com'') connectedGmail)
     = Some ''bob@example.com''"
  using disconnect_clears_emails [where now = 2000000 and email = None and g = connectedGmail
      and e = "''bob@example.com''"]
  by (simp add: connectedGmail_def)

section \<open>The unread count\<close>

text \<open>
  C10. For every Gmail state whose \<open>unreadCount\<close> is not negative, \<open>updateEmail\<close>
  leaves \<open>unreadCount\<close> not negative: marking an email read takes the maximum of 0
  and the count less one.
\<close>

theorem updateEmail_unread_nonneg:
  "0 \<le> unreadCount g \<Longrightarrow> 0 \<le> unreadCount (updateEmail emailId updates g)"
  by (simp add: updateEmail_def)

theorem updateEmail_unread_nonneg_witness:
  "0 \<le> unreadCount (connectedGmail\<lparr> unreadCount := 0 \<rparr>) \<and>
   unreadCount (updateEmail ''m1'' [(''is_read'', JBool True)]
                  (connectedGmail\<lparr> unreadCount := 0 \<rparr>)) = 0 \<and>
   0 \<le> unreadCount (updateEmail ''m1'' [(''is_read'', JBool True)]
                       (connectedGmail\<lparr> unreadCount := 0 \<rparr>)) \<and>
   emails (updateEmail ''m1'' [(''is_read'', JBool True)] (connectedGmail\<lparr> unreadCount := 0 \<rparr>))
     = [[(''id'', JStr ''m1''), (''subject'', JStr ''Hello''), (''is_read'', JBool True)]]"
proof -
  have h: "0 \<le> unreadCount (connectedGmail\<lparr> unreadCount := 0 \<rparr>)" by simp
  show ?thesis
    using h updateEmail_unread_nonneg [OF h, of "''m1''" "[(''is_read'', JBool True)]"]
    by (simp add: updateEmail_def connectedGmail_def emailOne_def js_get_def js_spread_def)
qed

end
